theory Spec2Isabelle
  imports Complex_Main "HOL-Library.Char_ord" "HOL-Library.List_Lexorder"
begin

section \<open>The sales dashboard's data engine (src/app/page.tsx)\<close>

text \<open>
  The engine of the dashboard is a chain of pure functions: \<open>pick\<close> finds a field of a
  parsed CSV record under one of several header spellings, \<open>toNumber\<close> and \<open>parseDate\<close>
  coerce its text, \<open>rows\<close> builds the typed rows, \<open>filtered\<close> applies the filter state and
  the aggregate views are recomputed from the filtered rows.

  Conventions of the embedding.
  \<^item> A JavaScript string is a \<^typ>\<open>string\<close>; a character stands for the code unit of the
    same number, so the texts covered are those of code units below 256.
  \<^item> A JavaScript number is a \<^typ>\<open>rat\<close> or one of NaN, +Infinity, -Infinity. Arithmetic
    on finite numbers is exact: the rounding of IEEE doubles and the sign of zero are not
    part of the model.
  \<^item> \<open>null\<close> and \<open>undefined\<close> are \<open>None\<close>.
  \<^item> A \<open>Map\<close> is an association list in insertion order.
\<close>

subsection \<open>Numbers\<close>

datatype jsnum = NaN | PosInf | NegInf | Fin rat

text \<open>\<open>Number.isFinite\<close>.\<close>

fun isFinite :: "jsnum \<Rightarrow> bool" where
  "isFinite (Fin q) = True"
| "isFinite NaN = False"
| "isFinite PosInf = False"
| "isFinite NegInf = False"

text \<open>The truth value of a number (\<open>ToBoolean\<close>): zero and NaN are falsy.\<close>

fun truthy :: "jsnum \<Rightarrow> bool" where
  "truthy (Fin q) = (q \<noteq> 0)"
| "truthy NaN = False"
| "truthy PosInf = True"
| "truthy NegInf = True"

text \<open>The value of a finite number (0 for the others, which the callers exclude).\<close>

fun numOf :: "jsnum \<Rightarrow> rat" where
  "numOf (Fin q) = q"
| "numOf NaN = 0"
| "numOf PosInf = 0"
| "numOf NegInf = 0"

text \<open>Addition and subtraction of numbers (\<open>a + b\<close>, \<open>a - b\<close>).\<close>

fun js_add :: "jsnum \<Rightarrow> jsnum \<Rightarrow> jsnum" where
  "js_add (Fin a) (Fin b) = Fin (a + b)"
| "js_add NaN y = NaN"
| "js_add x NaN = NaN"
| "js_add PosInf NegInf = NaN"
| "js_add NegInf PosInf = NaN"
| "js_add PosInf y = PosInf"
| "js_add NegInf y = NegInf"
| "js_add x PosInf = PosInf"
| "js_add x NegInf = NegInf"

fun js_neg :: "jsnum \<Rightarrow> jsnum" where
  "js_neg (Fin a) = Fin (- a)"
| "js_neg NaN = NaN"
| "js_neg PosInf = NegInf"
| "js_neg NegInf = PosInf"

definition js_sub :: "jsnum \<Rightarrow> jsnum \<Rightarrow> jsnum" where
  "js_sub x y = js_add x (js_neg y)"

text \<open>The relational operator \<open>a < b\<close>: false as soon as one side is NaN.\<close>

fun js_less :: "jsnum \<Rightarrow> jsnum \<Rightarrow> bool" where
  "js_less (Fin a) (Fin b) = (a < b)"
| "js_less NaN y = False"
| "js_less x NaN = False"
| "js_less PosInf y = False"
| "js_less x NegInf = False"
| "js_less NegInf y = True"
| "js_less x PosInf = True"

text \<open>
  The largest magnitude a double holds: a mathematical value of magnitude
  \<open>2^1024 - 2^970\<close> or more is rounded to an infinity. The bound is written out, so that
  it is a numeral when a term is evaluated.
\<close>

definition overflowBound :: rat where
  "overflowBound =
     179769313486231580793728971405303415079934132710037826936173778980444968292764750946649017977587207096330286416692887910946555547851940402630657488671505820681908902000708383676273854845817711531764475730270069855571366959622842914819860834936475292719074168444365510704342711559699508093042880177904174497792"

definition toDouble :: "rat \<Rightarrow> jsnum" where
  "toDouble q =
     (if overflowBound \<le> \<bar>q\<bar> then (if 0 < q then PosInf else NegInf) else Fin q)"

subsection \<open>Strings\<close>

text \<open>
  The white space that \<open>String.prototype.trim\<close>, the class \<open>\s\<close> of a regular expression
  and the numeric-literal grammar skip, among the code units below 256: TAB, LF, VT, FF,
  CR, SP and NBSP.
\<close>

definition isWhiteSpace :: "char \<Rightarrow> bool" where
  "isWhiteSpace c = (of_char c \<in> {9, 10, 11, 12, 13, 32, 160 :: nat})"

definition trim :: "string \<Rightarrow> string" where
  "trim s = rev (dropWhile isWhiteSpace (rev (dropWhile isWhiteSpace s)))"

text \<open>
  \<open>toLowerCase\<close>: A-Z, and the capital letters of Latin-1 (0xC0-0xDE but 0xD7). The small
  letter is 32 further, which for these codes sets the bit of weight 32.
\<close>

definition lowerChar :: "char \<Rightarrow> char" where
  "lowerChar c =
     (if (65 \<le> (of_char c :: nat) \<and> (of_char c :: nat) \<le> 90)
         \<or> (192 \<le> (of_char c :: nat) \<and> (of_char c :: nat) \<le> 222 \<and> (of_char c :: nat) \<noteq> 215)
      then (case c of Char b0 b1 b2 b3 b4 b5 b6 b7 \<Rightarrow> Char b0 b1 b2 b3 b4 True b6 b7)
      else c)"

definition toLowerCase :: "string \<Rightarrow> string" where
  "toLowerCase s = map lowerChar s"

text \<open>\<open>str.split(sep)\<close> for a separator of one character: never an empty list.\<close>

fun split :: "char \<Rightarrow> string \<Rightarrow> string list" where
  "split sep [] = [[]]"
| "split sep (c # cs) =
     (if c = sep then [] # split sep cs
      else (case split sep cs of
              [] \<Rightarrow> [[c]]
            | p # ps \<Rightarrow> (c # p) # ps))"

text \<open>An array element, \<open>undefined\<close> past the end.\<close>

fun nth_opt :: "'a list \<Rightarrow> nat \<Rightarrow> 'a option" where
  "nth_opt [] n = None"
| "nth_opt (x # xs) 0 = Some x"
| "nth_opt (x # xs) (Suc n) = nth_opt xs n"

subsection \<open>\<open>Number(text)\<close>: the numeric literals of a string\<close>

text \<open>
  \<open>Number\<close> applied to a string follows the grammar \<open>StringNumericLiteral\<close> of the
  language: white space around, the empty text is 0; an optional sign before
  \<open>Infinity\<close> or a decimal literal (digits, a fraction, an exponent); or an unsigned
  \<open>0x\<close>, \<open>0o\<close>, \<open>0b\<close> integer. Anything else is NaN.
\<close>

definition isDigit :: "char \<Rightarrow> bool" where
  "isDigit c = (48 \<le> (of_char c :: nat) \<and> (of_char c :: nat) \<le> 57)"

definition digitVal :: "char \<Rightarrow> nat" where
  "digitVal c = of_char c - 48"

definition digitsVal :: "string \<Rightarrow> nat" where
  "digitsVal ds = foldl (\<lambda>a c. 10 * a + digitVal c) 0 ds"

text \<open>The value of a digit in a base up to 16, if it is one.\<close>

definition hexVal :: "char \<Rightarrow> nat option" where
  "hexVal c =
     (let n = of_char c :: nat
      in if 48 \<le> n \<and> n \<le> 57 then Some (n - 48)
         else if 97 \<le> n \<and> n \<le> 102 then Some (n - 87)
         else if 65 \<le> n \<and> n \<le> 70 then Some (n - 55)
         else None)"

fun radixVal :: "nat \<Rightarrow> nat \<Rightarrow> string \<Rightarrow> nat option" where
  "radixVal b acc [] = Some acc"
| "radixVal b acc (c # cs) =
     (case hexVal c of
        None \<Rightarrow> None
      | Some d \<Rightarrow> if d < b then radixVal b (b * acc + d) cs else None)"

text \<open>\<open>0x..\<close>, \<open>0o..\<close>, \<open>0b..\<close> with at least one digit of the base.\<close>

definition nonDecimal :: "string \<Rightarrow> nat option" where
  "nonDecimal s =
     (case s of
        z # x # d # ds \<Rightarrow>
          if z = CHR ''0'' then
            (if x = CHR ''x'' \<or> x = CHR ''X'' then radixVal 16 0 (d # ds)
             else if x = CHR ''o'' \<or> x = CHR ''O'' then radixVal 8 0 (d # ds)
             else if x = CHR ''b'' \<or> x = CHR ''B'' then radixVal 2 0 (d # ds)
             else None)
          else None
      | _ \<Rightarrow> None)"

text \<open>The exponent part: nothing, or \<open>e\<close>, an optional sign and digits.\<close>

definition exponentPart :: "string \<Rightarrow> int option" where
  "exponentPart s =
     (case s of
        [] \<Rightarrow> Some 0
      | e # r \<Rightarrow>
          if e = CHR ''e'' \<or> e = CHR ''E'' then
            (case r of
               [] \<Rightarrow> None
             | g # ds \<Rightarrow>
                 if g = CHR ''+'' \<and> ds \<noteq> [] \<and> list_all isDigit ds then Some (int (digitsVal ds))
                 else if g = CHR ''-'' \<and> ds \<noteq> [] \<and> list_all isDigit ds then Some (- int (digitsVal ds))
                 else if list_all isDigit r then Some (int (digitsVal r))
                 else None)
          else None)"

definition scale10 :: "rat \<Rightarrow> int \<Rightarrow> rat" where
  "scale10 q e = (if 0 \<le> e then q * 10 ^ nat e else q / 10 ^ nat (- e))"

text \<open>
  An unsigned decimal literal: \<open>digits\<close>, \<open>digits.\<close>, \<open>digits.digits\<close> or \<open>.digits\<close>,
  each with an optional exponent. The value is the mathematical one.
\<close>

definition unsignedDecimal :: "string \<Rightarrow> rat option" where
  "unsignedDecimal s =
     (let ip = takeWhile isDigit s; r = dropWhile isDigit s
      in case r of
           [] \<Rightarrow> if ip = [] then None else Some (of_nat (digitsVal ip))
         | c # r1 \<Rightarrow>
             if c = CHR ''.'' then
               (let fp = takeWhile isDigit r1; r2 = dropWhile isDigit r1
                in if ip = [] \<and> fp = [] then None
                   else (case exponentPart r2 of
                           None \<Rightarrow> None
                         | Some e \<Rightarrow>
                             Some (scale10 (of_nat (digitsVal ip)
                                            + of_nat (digitsVal fp) / 10 ^ length fp) e)))
             else if ip = [] then None
             else (case exponentPart r of
                     None \<Rightarrow> None
                   | Some e \<Rightarrow> Some (scale10 (of_nat (digitsVal ip)) e)))"

definition unsignedLiteral :: "string \<Rightarrow> jsnum" where
  "unsignedLiteral s =
     (if s = ''Infinity'' then PosInf
      else (case unsignedDecimal s of None \<Rightarrow> NaN | Some q \<Rightarrow> toDouble q))"

definition Number :: "string \<Rightarrow> jsnum" where
  "Number s =
     (let t = trim s
      in case t of
           [] \<Rightarrow> Fin 0
         | c # r \<Rightarrow>
             (case nonDecimal t of
                Some n \<Rightarrow> toDouble (of_nat n)
              | None \<Rightarrow>
                  if c = CHR ''+'' then unsignedLiteral r
                  else if c = CHR ''-'' then js_neg (unsignedLiteral r)
                  else unsignedLiteral t))"

text \<open>\<open>Number\<close> of an array element: \<open>Number(undefined)\<close> is NaN.\<close>

definition NumberOpt :: "string option \<Rightarrow> jsnum" where
  "NumberOpt v = (case v of None \<Rightarrow> NaN | Some s \<Rightarrow> Number s)"

subsection \<open>Numeric coercion: \<open>toNumber\<close> (lines 37-42)\<close>

text \<open>The characters the expression \<open>/[$,%\s]/g\<close> matches.\<close>

definition stripped :: "char \<Rightarrow> bool" where
  "stripped c = (c = CHR ''$'' \<or> c = CHR '','' \<or> c = CHR ''%'' \<or> isWhiteSpace c)"

text \<open>
  The argument is the text \<open>pick\<close> returned, or \<open>null\<close>:
  \<^verbatim>\<open>if (v == null) return 0;
  const s = String(v).replace(/[$,%\s]/g, "");
  const n = Number(s);
  return Number.isFinite(n) ? n : 0;\<close>
\<close>

definition toNumber :: "string option \<Rightarrow> jsnum" where
  "toNumber v =
     (case v of
        None \<Rightarrow> Fin 0
      | Some t \<Rightarrow>
          (let s = filter (\<lambda>c. \<not> stripped c) t; n = Number s
           in if isFinite n then n else Fin 0))"

subsection \<open>Dates\<close>

text \<open>
  A \<open>Date\<close> object holds a time value, or NaN when it is invalid. The model keeps the time
  value in local time (milliseconds from the local midnight of 1 January 1970): the
  constructor \<open>new Date(y, m, d)\<close> and the readers \<open>getFullYear\<close>, \<open>getMonth\<close>, \<open>getDate\<close>
  all work in local time, and the offset of the time zone is taken as constant.
\<close>

datatype jsdate = InvalidDate | DateValue int

definition msPerDay :: int where
  "msPerDay = 86400000"

text \<open>
  The day number of a date of the proleptic Gregorian calendar (month 1 to 12): day 0 is
  1 January 1970. The year is counted from 1 March, in eras of 400 years (146097 days).
\<close>

definition dayOfYear :: "int \<Rightarrow> int \<Rightarrow> int" where
  "dayOfYear m d = (153 * (if 2 < m then m - 3 else m + 9) + 2) div 5 + d - 1"

definition daysFromYearDay :: "int \<Rightarrow> int \<Rightarrow> int" where
  "daysFromYearDay y1 doy =
     (y1 div 400) * 146097
     + ((y1 mod 400) * 365 + (y1 mod 400) div 4 - (y1 mod 400) div 100 + doy) - 719468"

definition daysFromCivil :: "int \<Rightarrow> int \<Rightarrow> int \<Rightarrow> int" where
  "daysFromCivil y m d = daysFromYearDay (if m \<le> 2 then y - 1 else y) (dayOfYear m d)"

text \<open>
  The date (year, month 1 to 12, day) of a day number, step by step: the era and the day
  of the era, the year of the era, the day of the year, the month.
\<close>

definition civilOfMonth :: "int \<Rightarrow> int \<Rightarrow> int \<Rightarrow> int \<times> int \<times> int" where
  "civilOfMonth y doy mp =
     (if mp < 10 then (y, mp + 3, doy - (153 * mp + 2) div 5 + 1)
      else (y + 1, mp - 9, doy - (153 * mp + 2) div 5 + 1))"

definition civilOfDayOfYear :: "int \<Rightarrow> int \<Rightarrow> int \<times> int \<times> int" where
  "civilOfDayOfYear y doy = civilOfMonth y doy ((5 * doy + 2) div 153)"

definition civilOfYearOfEra :: "int \<Rightarrow> int \<Rightarrow> int \<Rightarrow> int \<times> int \<times> int" where
  "civilOfYearOfEra era doe yoe =
     civilOfDayOfYear (yoe + era * 400) (doe - (365 * yoe + yoe div 4 - yoe div 100))"

definition civilOfDayOfEra :: "int \<Rightarrow> int \<Rightarrow> int \<times> int \<times> int" where
  "civilOfDayOfEra era doe =
     civilOfYearOfEra era doe ((doe - doe div 1460 + doe div 36524 - doe div 146096) div 365)"

definition civilFromDays :: "int \<Rightarrow> int \<times> int \<times> int" where
  "civilFromDays z = civilOfDayOfEra ((z + 719468) div 146097) ((z + 719468) mod 146097)"

text \<open>\<open>ToIntegerOrInfinity\<close> of a finite number: the fraction is dropped.\<close>

definition toInteger :: "rat \<Rightarrow> int" where
  "toInteger q = (if 0 \<le> q then \<lfloor>q\<rfloor> else \<lceil>q\<rceil>)"

text \<open>
  \<open>MakeDay\<close>: months beyond 0..11 carry into the year, and the day of the month counts on
  from the first of the month, whatever its size.
\<close>

definition MakeDay :: "int \<Rightarrow> int \<Rightarrow> int \<Rightarrow> int" where
  "MakeDay y m dt = daysFromCivil (y + m div 12) (m mod 12 + 1) 1 + dt - 1"

definition TimeClip :: "int \<Rightarrow> jsdate" where
  "TimeClip t = (if 8640000000000000 < \<bar>t\<bar> then InvalidDate else DateValue t)"

text \<open>
  \<open>new Date(year, month, date)\<close>: invalid when an argument is not finite; a year from 0 to
  99 stands for 1900 to 1999.
\<close>

definition fullYear :: "int \<Rightarrow> int" where
  "fullYear yi = (if 0 \<le> yi \<and> yi \<le> 99 then 1900 + yi else yi)"

definition newDate :: "jsnum \<Rightarrow> jsnum \<Rightarrow> jsnum \<Rightarrow> jsdate" where
  "newDate year month date =
     (case (year, month, date) of
        (Fin y, Fin m, Fin d) \<Rightarrow>
          TimeClip (MakeDay (fullYear (toInteger y)) (toInteger m) (toInteger d) * msPerDay)
      | _ \<Rightarrow> InvalidDate)"

definition getFullYear :: "jsdate \<Rightarrow> jsnum" where
  "getFullYear d =
     (case d of
        InvalidDate \<Rightarrow> NaN
      | DateValue t \<Rightarrow> Fin (of_int (fst (civilFromDays (t div msPerDay)))))"

text \<open>\<open>getMonth\<close> counts the months from 0.\<close>

definition getMonth :: "jsdate \<Rightarrow> jsnum" where
  "getMonth d =
     (case d of
        InvalidDate \<Rightarrow> NaN
      | DateValue t \<Rightarrow> Fin (of_int (fst (snd (civilFromDays (t div msPerDay))) - 1)))"

definition getDate :: "jsdate \<Rightarrow> jsnum" where
  "getDate d =
     (case d of
        InvalidDate \<Rightarrow> NaN
      | DateValue t \<Rightarrow> Fin (of_int (snd (snd (civilFromDays (t div msPerDay))))))"

subsection \<open>Date coercion: \<open>parseDate\<close> (lines 44-67)\<close>

text \<open>
  \<open>new Date(str)\<close> is the platform's parser: the language fixes it for the ISO format only
  and leaves every other text to the implementation. It is the parameter \<open>DateParse\<close>,
  which returns \<open>InvalidDate\<close> for a text it does not read.

  The slash rule (lines 52-56):
  \<^verbatim>\<open>if (str.includes("/")) {
    const [mm, dd, yyyy] = str.split("/");
    const m = Number(mm), d = Number(dd), y = Number(yyyy);
    if (m && d && y) return new Date(y, m - 1, d);
  }\<close>
\<close>

definition slashRule :: "string \<Rightarrow> jsdate option" where
  "slashRule str =
     (if CHR ''/'' \<in> set str then
        (let ps = split CHR ''/'' str;
             m = NumberOpt (nth_opt ps 0);
             d = NumberOpt (nth_opt ps 1);
             y = NumberOpt (nth_opt ps 2)
         in if truthy m \<and> truthy d \<and> truthy y then Some (newDate y (js_sub m (Fin 1)) d)
            else None)
      else None)"

text \<open>
  The dash or dot rule (lines 57-65):
  \<^verbatim>\<open>if (str.includes("-") || str.includes(".")) {
    const sep = str.includes("-") ? "-" : ".";
    const parts = str.split(sep).map((x) => x.trim());
    if (parts.length === 3) {
      const a = Number(parts[0]), b = Number(parts[1]), c = Number(parts[2]);
      if (a > 12) return new Date(c, b - 1, a);
      return new Date(c, a - 1, b);
    }
  }\<close>
\<close>

definition dashRule :: "string \<Rightarrow> jsdate option" where
  "dashRule str =
     (if CHR ''-'' \<in> set str \<or> CHR ''.'' \<in> set str then
        (let sep = (if CHR ''-'' \<in> set str then CHR ''-'' else CHR ''.'');
             parts = map trim (split sep str)
         in case parts of
              [p0, p1, p2] \<Rightarrow>
                (let a = Number p0; b = Number p1; c = Number p2
                 in if js_less (Fin 12) a then Some (newDate c (js_sub b (Fin 1)) a)
                    else Some (newDate c (js_sub a (Fin 1)) b))
            | _ \<Rightarrow> None)
      else None)"

text \<open>
  The argument is the text \<open>pick\<close> returned, or \<open>null\<close>; \<open>!v\<close> holds for \<open>null\<close> and for the
  empty text. (The branch for an argument that is a \<open>Date\<close> already is never taken for a
  text.)
  \<^verbatim>\<open>if (!v) return null;
  const str = String(v).trim();
  const iso = new Date(str);
  if (!Number.isNaN(iso.getTime())) return iso;
  ... the slash rule, the dash or dot rule ...
  return null;\<close>
\<close>

definition parseDate :: "(string \<Rightarrow> jsdate) \<Rightarrow> string option \<Rightarrow> jsdate option" where
  "parseDate DateParse v =
     (case v of
        None \<Rightarrow> None
      | Some s \<Rightarrow>
          if s = [] then None
          else (let str = trim s; iso = DateParse str
                in if iso \<noteq> InvalidDate then Some iso
                   else (case slashRule str of
                           Some d \<Rightarrow> Some d
                         | None \<Rightarrow> dashRule str)))"

subsection \<open>Maps in insertion order\<close>

text \<open>
  A \<open>Map\<close> keeps its keys in the order of their first insertion: \<open>set\<close> on a key that is
  present replaces the value where it stands, \<open>set\<close> on a new key appends it.
\<close>

fun map_set :: "('k \<times> 'v) list \<Rightarrow> 'k \<Rightarrow> 'v \<Rightarrow> ('k \<times> 'v) list" where
  "map_set [] k v = [(k, v)]"
| "map_set ((k', v') # m) k v =
     (if k' = k then (k, v) # m else (k', v') # map_set m k v)"

definition map_get :: "('k \<times> 'v) list \<Rightarrow> 'k \<Rightarrow> 'v option" where
  "map_get m k = map_of m k"

subsection \<open>The field resolver: \<open>pick\<close> (lines 24-35)\<close>

text \<open>
  A raw record is the object the CSV parser built for one line: its keys in the order of
  \<open>Object.keys\<close>, each with a text or \<open>null\<close>. The keys of an object are distinct.
\<close>

type_synonym AnyRow = "(string \<times> string option) list"

text \<open>\<open>k in r\<close>, and \<open>r[k]\<close> with \<open>null\<close> and \<open>undefined\<close> alike as \<open>None\<close>.\<close>

definition hasKey :: "AnyRow \<Rightarrow> string \<Rightarrow> bool" where
  "hasKey r k = (k \<in> set (map fst r))"

definition getProp :: "AnyRow \<Rightarrow> string \<Rightarrow> string option" where
  "getProp r k = (case map_of r k of Some (Some v) \<Rightarrow> Some v | _ \<Rightarrow> None)"

text \<open>
  The test \<open>x != null && String(x).trim() !== ""\<close> and the value \<open>String(x).trim()\<close>
  returned when it holds.
\<close>

definition nonEmptyText :: "string option \<Rightarrow> string option" where
  "nonEmptyText x =
     (case x of
        None \<Rightarrow> None
      | Some t \<Rightarrow> if trim t \<noteq> [] then Some (trim t) else None)"

text \<open>
  The first loop:
  \<^verbatim>\<open>for (const k of keys) {
    if (k in r && r[k] != null && String(r[k]).trim() !== "") return String(r[k]).trim();
  }\<close>
\<close>

fun pickExact :: "AnyRow \<Rightarrow> string list \<Rightarrow> string option" where
  "pickExact r [] = None"
| "pickExact r (k # ks) =
     (case (if hasKey r k then nonEmptyText (getProp r k) else None) of
        Some t \<Rightarrow> Some t
      | None \<Rightarrow> pickExact r ks)"

text \<open>
  The map from the lower-cased, trimmed keys to the keys:
  \<^verbatim>\<open>const map = new Map<string, string>();
  for (const kk of Object.keys(r)) map.set(kk.toLowerCase().trim(), kk);\<close>
\<close>

definition keyMap :: "AnyRow \<Rightarrow> (string \<times> string) list" where
  "keyMap r = foldl (\<lambda>m kk. map_set m (trim (toLowerCase kk)) kk) [] (map fst r)"

text \<open>
  The second loop; \<open>real &&\<close> fails for a key that is missing from the map and for the
  empty key:
  \<^verbatim>\<open>for (const want of keys) {
    const real = map.get(want.toLowerCase().trim());
    if (real && r[real] != null && String(r[real]).trim() !== "") return String(r[real]).trim();
  }\<close>
\<close>

fun pickLoose :: "AnyRow \<Rightarrow> (string \<times> string) list \<Rightarrow> string list \<Rightarrow> string option" where
  "pickLoose r m [] = None"
| "pickLoose r m (want # ks) =
     (case (case map_get m (trim (toLowerCase want)) of
              None \<Rightarrow> None
            | Some rk \<Rightarrow> if rk \<noteq> [] then nonEmptyText (getProp r rk) else None) of
        Some t \<Rightarrow> Some t
      | None \<Rightarrow> pickLoose r m ks)"

definition pick :: "AnyRow \<Rightarrow> string list \<Rightarrow> string" where
  "pick r keys =
     (case pickExact r keys of
        Some t \<Rightarrow> t
      | None \<Rightarrow> (case pickLoose r (keyMap r) keys of Some t \<Rightarrow> t | None \<Rightarrow> []))"

text \<open>
  The resolver as the specification words it: the first alias, in order, with an exact
  key whose value is not empty after trimming; if there is none, the first alias, in
  order, that equals some key up to case and surrounding white space, that key having a
  value that is not empty after trimming; the empty text otherwise.
\<close>

definition normKey :: "string \<Rightarrow> string" where
  "normKey k = trim (toLowerCase k)"

definition exactValue :: "AnyRow \<Rightarrow> string \<Rightarrow> string option" where
  "exactValue r a = nonEmptyText (getProp r a)"

definition looseValues :: "AnyRow \<Rightarrow> string \<Rightarrow> string list" where
  "looseValues r a =
     List.map_filter (\<lambda>(k, v). if normKey k = normKey a then nonEmptyText v else None) r"

definition pickSpec :: "AnyRow \<Rightarrow> string list \<Rightarrow> string" where
  "pickSpec r keys =
     (case List.map_filter (exactValue r) keys of
        t # _ \<Rightarrow> t
      | [] \<Rightarrow> (case concat (map (looseValues r) keys) of t # _ \<Rightarrow> t | [] \<Rightarrow> []))"

text \<open>
  What the second loop looks at for an alias: the last key, in key order, that equals the
  alias up to case and surrounding white space, unless that key is empty.
\<close>

definition lastKey :: "AnyRow \<Rightarrow> string \<Rightarrow> string option" where
  "lastKey r a =
     (case filter (\<lambda>k. normKey k = normKey a) (map fst r) of
        [] \<Rightarrow> None
      | k # ks \<Rightarrow> Some (last (k # ks)))"

definition looseValue :: "AnyRow \<Rightarrow> string \<Rightarrow> string option" where
  "looseValue r a =
     (case lastKey r a of
        None \<Rightarrow> None
      | Some rk \<Rightarrow> if rk \<noteq> [] then nonEmptyText (getProp r rk) else None)"

subsection \<open>Ingestion (lines 235-236)\<close>


subsection \<open>The row normalizer: \<open>rows\<close> (lines 247-277)\<close>

text \<open>The type \<open>Row\<close> (lines 107-125); the field \<open>__region\<close> is \<open>r_region\<close>, and so on.\<close>

record Row =
  r_orderId :: string
  r_orderDate :: "jsdate option"
  r_shipDate :: "jsdate option"
  r_sales :: jsnum
  r_profit :: jsnum
  r_discount :: jsnum
  r_region :: string
  r_segment :: string
  r_category :: string
  r_subCategory :: string
  r_shipMode :: string
  r_state :: string
  r_productContainer :: string
  r_productName :: string
  r_baseMargin :: jsnum

text \<open>\<open>a || b\<close> for a text (the empty text is falsy) and for a number (0 and NaN are).\<close>

definition strOr :: "string \<Rightarrow> string \<Rightarrow> string" where
  "strOr a b = (if a \<noteq> [] then a else b)"

definition numOr :: "jsnum \<Rightarrow> jsnum \<Rightarrow> jsnum" where
  "numOr a b = (if truthy a then a else b)"

definition toRow :: "(string \<Rightarrow> jsdate) \<Rightarrow> AnyRow \<Rightarrow> Row" where
  "toRow DateParse r =
     \<lparr> r_orderId = strOr (pick r [''Order ID'', ''Order Id'', ''OrderID'', ''order id'', ''order_id'']) [],
       r_orderDate = parseDate DateParse
          (Some (pick r [''Order Date'', ''order date'', ''OrderDate'', ''Order_Date'', ''Date'', ''order_date''])),
       r_shipDate = parseDate DateParse
          (Some (pick r [''Ship Date'', ''ship date'', ''ShipDate'', ''Ship_Date'', ''ship_date''])),
       r_sales = numOr (toNumber (Some (pick r [''Sales'', ''sales'', ''Total Sales'', ''total_sales'']))) (Fin 0),
       r_profit = numOr (toNumber (Some (pick r [''Profit'', ''profit'', ''Total Profit'', ''total_profit'']))) (Fin 0),
       r_discount = numOr (toNumber (Some (pick r [''Discount'', ''discount'']))) (Fin 0),
       r_region = strOr (pick r [''Region'', ''region'']) ''Unknown'',
       r_segment = strOr (pick r [''Customer Segment'', ''customer segment'', ''Segment'', ''segment'', ''Cust Segment'']) ''Unknown'',
       r_category = strOr (pick r [''Category'', ''category'']) ''Unknown'',
       r_subCategory = strOr (pick r [''Sub-Category'', ''Sub Category'', ''sub-category'', ''sub category'', ''SubCategory'']) ''Unknown'',
       r_shipMode = strOr (pick r [''Ship Mode'', ''ship mode'', ''ShipMode'']) ''Unknown'',
       r_state = strOr (pick r [''State or Province'', ''state or province'', ''State'', ''State/Province'', ''Province'']) [],
       r_productContainer = strOr (pick r [''Product Container'', ''product container'']) ''Unknown'',
       r_productName = strOr (pick r [''Product Name'', ''product name'']) ''Unknown'',
       r_baseMargin = toNumber (Some (pick r [''Product Base Margin'', ''product base margin'', ''Base Margin'', ''base margin''])) \<rparr>"

definition rows :: "(string \<Rightarrow> jsdate) \<Rightarrow> AnyRow list \<Rightarrow> Row list" where
  "rows DateParse raw = map (toRow DateParse) raw"

subsection \<open>The filter engine: \<open>filtered\<close> (lines 305-322)\<close>

text \<open>
  The filter state of the page (lines 218-224): five selectors, \<open>"All"\<close> meaning no
  constraint, and two year bounds. The bounds are the full range of the data or the
  number read from a numeric input, so they are finite numbers.
\<close>

record FilterState =
  region :: string
  segment :: string
  category :: string
  stateName :: string
  shipMode :: string
  yearFrom :: rat
  yearTo :: rat

text \<open>
  The predicate of the filter:
  \<^verbatim>\<open>const y = r.__orderDate ? r.__orderDate.getFullYear() : NaN;
  if (!Number.isFinite(y)) return false;
  if (y < y1 || y > y2) return false;
  if (region !== "All" && r.__region !== region) return false;
  ... segment, category, stateName, shipMode alike ...
  return true;\<close>
  with \<open>y1 = Math.min(yearFrom, yearTo)\<close> and \<open>y2 = Math.max(yearFrom, yearTo)\<close>.
\<close>

definition orderYear :: "Row \<Rightarrow> jsnum" where
  "orderYear r = (case r_orderDate r of None \<Rightarrow> NaN | Some d \<Rightarrow> getFullYear d)"

definition passes :: "FilterState \<Rightarrow> Row \<Rightarrow> bool" where
  "passes fs r =
     (let y1 = min (yearFrom fs) (yearTo fs);
          y2 = max (yearFrom fs) (yearTo fs);
          y = orderYear r
      in if \<not> isFinite y then False
         else if js_less y (Fin y1) \<or> js_less (Fin y2) y then False
         else if region fs \<noteq> ''All'' \<and> r_region r \<noteq> region fs then False
         else if segment fs \<noteq> ''All'' \<and> r_segment r \<noteq> segment fs then False
         else if category fs \<noteq> ''All'' \<and> r_category r \<noteq> category fs then False
         else if stateName fs \<noteq> ''All'' \<and> r_state r \<noteq> stateName fs then False
         else if shipMode fs \<noteq> ''All'' \<and> r_shipMode r \<noteq> shipMode fs then False
         else True)"

definition filtered :: "FilterState \<Rightarrow> Row list \<Rightarrow> Row list" where
  "filtered fs rs = filter (passes fs) rs"

subsection \<open>The order count of the KPIs (line 327)\<close>

text \<open>
  \<^verbatim>\<open>const orders = new Set(filtered.map((r) => r.__orderId).filter(Boolean)).size || filtered.length;\<close>
  The size of the \<open>Set\<close> is the number of distinct identifiers left.
\<close>

definition orders :: "Row list \<Rightarrow> nat" where
  "orders rs =
     (let n = length (remdups (filter (\<lambda>i. i \<noteq> []) (map r_orderId rs)))
      in if n \<noteq> 0 then n else length rs)"

subsection \<open>The scatter of profit against base margin (lines 410-421)\<close>

text \<open>
  A point \<open>{x, y, cat}\<close> is a triple:
  \<^verbatim>\<open>filtered.map((r) => ({ x: r.__baseMargin, y: r.__profit, cat: r.__category }))
          .filter((p) => Number.isFinite(p.x) && Number.isFinite(p.y))\<close>
\<close>

definition profitVsBaseMargin :: "Row list \<Rightarrow> (jsnum \<times> jsnum \<times> string) list" where
  "profitVsBaseMargin rs =
     filter (\<lambda>p. isFinite (fst p) \<and> isFinite (fst (snd p)))
       (map (\<lambda>r. (r_baseMargin r, r_profit r, r_category r)) rs)"

subsection \<open>Sorting with a comparator\<close>




subsection \<open>Grouped sums (lines 355-407)\<close>

text \<open>\<open>m.get(k) || 0\<close>: 0 for a missing key, and for a value that is 0 or NaN.\<close>

definition orZero :: "jsnum option \<Rightarrow> jsnum" where
  "orZero v = (case v of None \<Rightarrow> Fin 0 | Some n \<Rightarrow> if truthy n then n else Fin 0)"

text \<open>
  The loop that every grouped sum runs, for a key and a metric of the row:
  \<^verbatim>\<open>const m = new Map<string, number>();
  for (const r of filtered) m.set(key(r), (m.get(key(r)) || 0) + metric(r));\<close>
\<close>

definition sumInto :: "(Row \<Rightarrow> string) \<Rightarrow> (Row \<Rightarrow> jsnum) \<Rightarrow> Row list \<Rightarrow> (string \<times> jsnum) list" where
  "sumInto keyFn valFn rs =
     foldl (\<lambda>m r. map_set m (keyFn r) (js_add (orZero (map_get m (keyFn r))) (valFn r))) [] rs"







subsection \<open>The monthly series (lines 69-74, 341-353)\<close>

text \<open>The decimal digits of an integer, as \<open>String\<close> prints it.\<close>

fun natToString :: "nat \<Rightarrow> string" where
  "natToString n =
     (if n < 10 then [''0123456789'' ! n]
      else natToString (n div 10) @ [''0123456789'' ! (n mod 10)])"

declare natToString.simps [simp del]

definition intToString :: "int \<Rightarrow> string" where
  "intToString i = (if i < 0 then CHR ''-'' # natToString (nat (- i)) else natToString (nat i))"

text \<open>
  \<^verbatim>\<open>const y = d.getFullYear();
  const m = d.getMonth() + 1;
  const mm = m < 10 ? `0${m}` : `${m}`;
  return `${y}-${mm}`;\<close>
  For an invalid date both numbers are NaN, and so is the month in the key.
\<close>

definition monthKey :: "jsdate \<Rightarrow> string" where
  "monthKey d =
     (case d of
        InvalidDate \<Rightarrow> ''NaN-NaN''
      | DateValue t \<Rightarrow>
          (case civilFromDays (t div msPerDay) of
             (y, m, dd) \<Rightarrow>
               intToString y @ ''-''
                 @ (if m < 10 then ''0'' @ intToString m else intToString m)))"




subsection \<open>The insights (lines 424-460)\<close>





subsection \<open>Grouped sums as the specification words them\<close>

text \<open>
  The keys of a grouping in the order of their first appearance, the total of a key, and
  the grouped sum: the pairs of a key and its total, sorted by descending total, pairs
  of equal total staying in the order of first appearance (\<open>sort_key\<close> is stable).
\<close>

fun firsts :: "'a list \<Rightarrow> 'a list" where
  "firsts [] = []"
| "firsts (k # ks) = k # filter (\<lambda>j. j \<noteq> k) (firsts ks)"

definition groupTotal :: "(Row \<Rightarrow> string) \<Rightarrow> (Row \<Rightarrow> jsnum) \<Rightarrow> Row list \<Rightarrow> string \<Rightarrow> rat" where
  "groupTotal keyFn valFn rs k = sum_list (map (\<lambda>r. numOf (valFn r)) (filter (\<lambda>r. keyFn r = k) rs))"

definition groupEntries :: "(Row \<Rightarrow> string) \<Rightarrow> (Row \<Rightarrow> jsnum) \<Rightarrow> Row list \<Rightarrow> (string \<times> rat) list" where
  "groupEntries keyFn valFn rs =
     map (\<lambda>k. (k, groupTotal keyFn valFn rs k)) (firsts (map keyFn rs))"

definition groupedSumSpec :: "(Row \<Rightarrow> string) \<Rightarrow> (Row \<Rightarrow> jsnum) \<Rightarrow> Row list \<Rightarrow> (string \<times> rat) list" where
  "groupedSumSpec keyFn valFn rs = sort_key (\<lambda>p. - snd p) (groupEntries keyFn valFn rs)"



definition monthOf :: "Row \<Rightarrow> string" where
  "monthOf r = (case r_orderDate r of None \<Rightarrow> [] | Some d \<Rightarrow> monthKey d)"


subsection \<open>Sample data\<close>

text \<open>A row of 15 March 2012 and a filter state with no selector, its years given backwards.\<close>

definition sampleRow :: Row where
  "sampleRow =
     \<lparr> r_orderId = ''CA-1'', r_orderDate = Some (DateValue 1331769600000), r_shipDate = None,
       r_sales = Fin 100, r_profit = Fin 20, r_discount = Fin 0,
       r_region = ''West'', r_segment = ''Consumer'', r_category = ''Furniture'',
       r_subCategory = ''Chairs'', r_shipMode = ''Regular Air'', r_state = ''California'',
       r_productContainer = ''Small Box'', r_productName = ''Chair'', r_baseMargin = Fin (1 / 2) \<rparr>"

definition sampleFilter :: FilterState where
  "sampleFilter =
     \<lparr> region = ''All'', segment = ''All'', category = ''All'', stateName = ''All'',
       shipMode = ''All'', yearFrom = 2016, yearTo = 2013 \<rparr>"


definition sampleRows :: "Row list" where
  "sampleRows =
     [\<lparr> r_orderId = [], r_orderDate = Some (DateValue 1426377600000), r_shipDate = None,
        r_sales = Fin 10, r_profit = Fin 2, r_discount = Fin 0,
        r_region = ''Unknown'', r_segment = ''A'', r_category = ''Unknown'',
        r_subCategory = ''Unknown'', r_shipMode = ''Unknown'', r_state = [],
        r_productContainer = ''Unknown'', r_productName = ''Unknown'', r_baseMargin = Fin 0 \<rparr>,
      \<lparr> r_orderId = [], r_orderDate = Some (DateValue 1426464000000), r_shipDate = None,
        r_sales = Fin 30, r_profit = Fin 4, r_discount = Fin 0,
        r_region = ''Unknown'', r_segment = ''B'', r_category = ''Unknown'',
        r_subCategory = ''Unknown'', r_shipMode = ''Unknown'', r_state = [],
        r_productContainer = ''Unknown'', r_productName = ''Unknown'', r_baseMargin = Fin 0 \<rparr>,
      \<lparr> r_orderId = [], r_orderDate = Some (DateValue 1428019200000), r_shipDate = None,
        r_sales = Fin 5, r_profit = Fin (- 1), r_discount = Fin 0,
        r_region = ''Unknown'', r_segment = ''A'', r_category = ''Unknown'',
        r_subCategory = ''Unknown'', r_shipMode = ''Unknown'', r_state = ''Texas'',
        r_productContainer = ''Unknown'', r_productName = ''Unknown'', r_baseMargin = Fin 0 \<rparr>]"

text \<open>Facts about the literal grammar, for the claim on numeric coercion.\<close>

lemma isFinite_toDouble_cases: "toDouble q = Fin q \<or> \<not> isFinite (toDouble q)"
  by (simp add: toDouble_def)

lemma toNumber_finite: "isFinite (toNumber v)"
  by (cases v) (simp_all add: toNumber_def Let_def)

lemma digit_not_stripped: "isDigit c \<Longrightarrow> \<not> stripped c"
  by (auto simp: isDigit_def stripped_def isWhiteSpace_def)



lemma filter_digits: "list_all isDigit ds \<Longrightarrow> filter (\<lambda>c. \<not> stripped c) ds = ds"
  by (induction ds) (auto simp: digit_not_stripped)











lemma overflowBound_eq: "overflowBound = 2 ^ 1024 - 2 ^ 970"
  by (simp add: overflowBound_def)




subsection \<open>Facts about date coercion\<close>







lemma toInteger_of_int [simp]: "toInteger (of_int n) = n"
  by (simp add: toInteger_def)

lemma toInteger_numeral [simp]:
  "toInteger 0 = 0" "toInteger 1 = 1" "toInteger (numeral k) = numeral k"
  "toInteger (- 1) = - 1" "toInteger (- numeral k) = - numeral k"
  using toInteger_of_int[of 0] toInteger_of_int[of 1] toInteger_of_int[of "numeral k"]
    toInteger_of_int[of "- 1"] toInteger_of_int[of "- numeral k"]
  by simp_all

lemmas date_defs =
  newDate_def fullYear_def MakeDay_def daysFromCivil_def daysFromYearDay_def dayOfYear_def
  civilFromDays_def civilOfDayOfEra_def civilOfYearOfEra_def civilOfDayOfYear_def
  civilOfMonth_def TimeClip_def msPerDay_def
  getFullYear_def getMonth_def getDate_def js_sub_def

text \<open>The calendar at some known days, leap days among them.\<close>

lemma calendar_samples:
  "daysFromCivil 1970 1 1 = 0" "civilFromDays 0 = (1970, 1, 1)"
  "civilFromDays (- 1) = (1969, 12, 31)"
  "civilFromDays (daysFromCivil 2000 2 29) = (2000, 2, 29)"
  "civilFromDays (daysFromCivil 1900 2 28 + 1) = (1900, 3, 1)"
  "civilFromDays (daysFromCivil 2016 2 28 + 1) = (2016, 2, 29)"
  "civilFromDays (daysFromCivil 2015 12 31 + 1) = (2016, 1, 1)"
  "daysFromCivil 2015 3 15 = 16509" "civilFromDays 16509 = (2015, 3, 15)"
  by (simp_all add: date_defs)

lemma nth_opt_numeral [simp]:
  "nth_opt (x # xs) (numeral n) = nth_opt xs (pred_numeral n)"
  by (simp add: numeral_eq_Suc)

lemma nth_opt_one [simp]: "nth_opt (x # xs) 1 = nth_opt xs 0"
  by simp




subsection \<open>Facts about the field resolver\<close>

text \<open>Setting the bit of weight 32 adds 32 to the code of a capital letter.\<close>

lemma lowerChar_add: "(65 \<le> (of_char c :: nat) \<and> (of_char c :: nat) \<le> 90)
         \<or> (192 \<le> (of_char c :: nat) \<and> (of_char c :: nat) \<le> 222 \<and> (of_char c :: nat) \<noteq> 215)
   \<Longrightarrow> of_char (lowerChar c) = (of_char c :: nat) + 32"
proof (cases c)
  case (Char x1 x2 x3 x4 x5 x6 x7 x8)
  assume "(65 \<le> (of_char c :: nat) \<and> (of_char c :: nat) \<le> 90)
         \<or> (192 \<le> (of_char c :: nat) \<and> (of_char c :: nat) \<le> 222 \<and> (of_char c :: nat) \<noteq> 215)"
  with Char show ?thesis
    by (cases x1; cases x2; cases x3; cases x4; cases x5; cases x6; cases x7; cases x8)
       (simp_all add: lowerChar_def)
qed


















lemmas pick_defs =
  pick_def keyMap_def hasKey_def getProp_def nonEmptyText_def map_get_def
  pickSpec_def exactValue_def looseValues_def looseValue_def lastKey_def




subsection \<open>Facts about ingestion\<close>



subsection \<open>Facts about the filter, the order count and the scatter\<close>

lemma js_less_Fin: "isFinite y \<Longrightarrow> js_less y (Fin b) = (numOf y < b)"
  "isFinite y \<Longrightarrow> js_less (Fin b) y = (b < numOf y)"
  by (cases y; simp)+

lemma isFinite_iff: "isFinite y \<longleftrightarrow> (\<exists>q. y = Fin q)"
  by (cases y) simp_all

text \<open>
  Claim C1. A row passes the filter exactly when the year of its order date is defined and
  lies between the smaller and the larger of the two year bounds, both included, and each
  of the five selectors (region, segment, category, state, ship mode) is \<open>"All"\<close> or is
  equal, as a text, to the field of the row. A row with no order date never passes. The
  filtered rows are the rows that pass, in their order.
\<close>

theorem filter_predicate:
  "(passes fs r \<longleftrightarrow>
      (\<exists>y. orderYear r = Fin y
           \<and> min (yearFrom fs) (yearTo fs) \<le> y \<and> y \<le> max (yearFrom fs) (yearTo fs))
      \<and> (region fs = ''All'' \<or> r_region r = region fs)
      \<and> (segment fs = ''All'' \<or> r_segment r = segment fs)
      \<and> (category fs = ''All'' \<or> r_category r = category fs)
      \<and> (stateName fs = ''All'' \<or> r_state r = stateName fs)
      \<and> (shipMode fs = ''All'' \<or> r_shipMode r = shipMode fs))
   \<and> (r_orderDate r = None \<longrightarrow> \<not> passes fs r)
   \<and> filtered fs rs = filter (passes fs) rs
   \<and> set (filtered fs rs) = {x \<in> set rs. passes fs x}"
proof -
  have main: "passes fs r \<longleftrightarrow>
      (\<exists>y. orderYear r = Fin y
           \<and> min (yearFrom fs) (yearTo fs) \<le> y \<and> y \<le> max (yearFrom fs) (yearTo fs))
      \<and> (region fs = ''All'' \<or> r_region r = region fs)
      \<and> (segment fs = ''All'' \<or> r_segment r = segment fs)
      \<and> (category fs = ''All'' \<or> r_category r = category fs)
      \<and> (stateName fs = ''All'' \<or> r_state r = stateName fs)
      \<and> (shipMode fs = ''All'' \<or> r_shipMode r = shipMode fs)"
  proof -
    define lo hi where "lo = min (yearFrom fs) (yearTo fs)" and "hi = max (yearFrom fs) (yearTo fs)"
    have p: "passes fs r \<longleftrightarrow>
        isFinite (orderYear r) \<and> \<not> js_less (orderYear r) (Fin lo) \<and> \<not> js_less (Fin hi) (orderYear r)
        \<and> (region fs = ''All'' \<or> r_region r = region fs)
        \<and> (segment fs = ''All'' \<or> r_segment r = segment fs)
        \<and> (category fs = ''All'' \<or> r_category r = category fs)
        \<and> (stateName fs = ''All'' \<or> r_state r = stateName fs)
        \<and> (shipMode fs = ''All'' \<or> r_shipMode r = shipMode fs)"
      unfolding passes_def Let_def lo_def[symmetric] hi_def[symmetric] by auto
    have y: "isFinite (orderYear r) \<and> \<not> js_less (orderYear r) (Fin lo) \<and> \<not> js_less (Fin hi) (orderYear r)
        \<longleftrightarrow> (\<exists>y. orderYear r = Fin y \<and> lo \<le> y \<and> y \<le> hi)"
      by (cases "orderYear r") (auto simp: not_less)
    show ?thesis
      unfolding p lo_def[symmetric] hi_def[symmetric] using y by blast
  qed
  have null: "r_orderDate r = None \<longrightarrow> \<not> passes fs r"
    by (simp add: passes_def orderYear_def)
  from main null show ?thesis by (simp add: filtered_def)
qed

theorem filter_predicate_witness:
  "orderYear sampleRow = Fin 2012
   \<and> \<not> passes sampleFilter sampleRow
   \<and> passes (sampleFilter\<lparr>yearTo := 2010\<rparr>) sampleRow
   \<and> passes (sampleFilter\<lparr>yearTo := 2010, region := ''West''\<rparr>) sampleRow
   \<and> \<not> passes (sampleFilter\<lparr>yearTo := 2010, region := ''west''\<rparr>) sampleRow
   \<and> \<not> passes (sampleFilter\<lparr>yearTo := 2010\<rparr>) (sampleRow\<lparr>r_orderDate := None\<rparr>)"
proof -
  have oy: "orderYear sampleRow = Fin 2012"
    by (simp add: orderYear_def sampleRow_def date_defs)
  have w1: "\<not> passes sampleFilter sampleRow"
    using filter_predicate[of sampleFilter sampleRow] oy by (simp add: sampleFilter_def)
  have w2: "passes (sampleFilter\<lparr>yearTo := 2010\<rparr>) sampleRow"
    using filter_predicate[of "sampleFilter\<lparr>yearTo := 2010\<rparr>" sampleRow] oy
    by (simp add: sampleFilter_def)
  have w3: "passes (sampleFilter\<lparr>yearTo := 2010, region := ''West''\<rparr>) sampleRow"
    using filter_predicate[of "sampleFilter\<lparr>yearTo := 2010, region := ''West''\<rparr>" sampleRow] oy
    by (simp add: sampleFilter_def sampleRow_def)
  have w4: "\<not> passes (sampleFilter\<lparr>yearTo := 2010, region := ''west''\<rparr>) sampleRow"
    using filter_predicate[of "sampleFilter\<lparr>yearTo := 2010, region := ''west''\<rparr>" sampleRow] oy
    by (simp add: sampleFilter_def sampleRow_def)
  have w5: "\<not> passes (sampleFilter\<lparr>yearTo := 2010\<rparr>) (sampleRow\<lparr>r_orderDate := None\<rparr>)"
  proof -
    have "r_orderDate (sampleRow\<lparr>r_orderDate := None\<rparr>) = None" by simp
    with filter_predicate[of "sampleFilter\<lparr>yearTo := 2010\<rparr>" "sampleRow\<lparr>r_orderDate := None\<rparr>"]
    show ?thesis by blast
  qed
  from oy w1 w2 w3 w4 w5 show ?thesis by blast
qed

text \<open>
  Claim C8. Exchanging the two year bounds does not change the filtered rows.
\<close>

theorem year_range_symmetric:
  "filtered (fs\<lparr>yearFrom := a, yearTo := b\<rparr>) rs = filtered (fs\<lparr>yearFrom := b, yearTo := a\<rparr>) rs"
proof -
  have "passes (fs\<lparr>yearFrom := a, yearTo := b\<rparr>) r = passes (fs\<lparr>yearFrom := b, yearTo := a\<rparr>) r" for r
    by (simp add: passes_def min.commute max.commute)
  then have "passes (fs\<lparr>yearFrom := a, yearTo := b\<rparr>) = passes (fs\<lparr>yearFrom := b, yearTo := a\<rparr>)"
    by (rule ext)
  then show ?thesis by (simp only: filtered_def)
qed

text \<open>
  Claim C7. The order count is the number of distinct order identifiers that are not
  empty among the rows, and the number of rows when there is no such identifier.
\<close>

theorem orders_distinct_ids:
  "orders rs =
     (if {i \<in> r_orderId ` set rs. i \<noteq> []} = {} then length rs
      else card {i \<in> r_orderId ` set rs. i \<noteq> []})"
proof -
  let ?ids = "filter (\<lambda>i. i \<noteq> []) (map r_orderId rs)"
  have s: "set ?ids = {i \<in> r_orderId ` set rs. i \<noteq> []}" by auto
  have "length (remdups ?ids) = card (set ?ids)" by (rule length_remdups_card_conv)
  moreover have "card (set ?ids) = 0 \<longleftrightarrow> set ?ids = {}" by simp
  ultimately show ?thesis unfolding orders_def Let_def s by simp
qed

lemma numOr_finite: "isFinite a \<Longrightarrow> isFinite (numOr a (Fin 0))"
  by (simp add: numOr_def)

lemma toRow_finite:
  "isFinite (r_sales (toRow DateParse r))" "isFinite (r_profit (toRow DateParse r))"
  "isFinite (r_discount (toRow DateParse r))" "isFinite (r_baseMargin (toRow DateParse r))"
  by (simp_all add: toRow_def numOr_finite toNumber_finite)



text \<open>
  Claim C10. Every row the normalizer builds has a finite base margin and a finite profit,
  so the scatter view has one point (base margin, profit, category) for every filtered
  row, in the order of the rows.
\<close>

theorem scatter_keeps_every_row:
  "profitVsBaseMargin (filtered fs (rows DateParse raw))
     = map (\<lambda>r. (r_baseMargin r, r_profit r, r_category r)) (filtered fs (rows DateParse raw))
   \<and> length (profitVsBaseMargin (filtered fs (rows DateParse raw)))
       = length (filtered fs (rows DateParse raw))
   \<and> list_all (\<lambda>r. isFinite (r_baseMargin r) \<and> isFinite (r_profit r)) (rows DateParse raw)"
proof -
  have fin: "isFinite (r_baseMargin x) \<and> isFinite (r_profit x)" if "x \<in> set (rows DateParse raw)" for x
    using that toRow_finite by (auto simp: rows_def)
  then have all: "list_all (\<lambda>r. isFinite (r_baseMargin r) \<and> isFinite (r_profit r)) (rows DateParse raw)"
    by (simp add: list_all_iff)
  have "x \<in> set (filtered fs (rows DateParse raw)) \<Longrightarrow> x \<in> set (rows DateParse raw)" for x
    by (simp add: filtered_def)
  with fin have eq: "profitVsBaseMargin (filtered fs (rows DateParse raw))
     = map (\<lambda>r. (r_baseMargin r, r_profit r, r_category r)) (filtered fs (rows DateParse raw))"
    unfolding profitVsBaseMargin_def by (intro filter_True) auto
  from eq all show ?thesis by simp
qed

subsection \<open>Facts about grouped sums\<close>

lemma set_firsts [simp]: "set (firsts ks) = set ks"
  by (induction ks) auto

lemma distinct_firsts [simp]: "distinct (firsts ks)"
  by (induction ks) auto





















subsection \<open>The sample records through the pipeline\<close>









subsection \<open>The grouped-sum views of the filtered rows\<close>







subsection \<open>Facts about the insights and the monthly series\<close>

lemma sumInto_cong:
  assumes "\<forall>r \<in> set rs. k1 r = k2 r"
  shows "sumInto k1 valFn rs = sumInto k2 valFn rs"
  unfolding sumInto_def using assms by (intro foldl_cong) auto

lemma groupedSumSpec_cong:
  assumes "\<forall>r \<in> set rs. k1 r = k2 r"
  shows "groupedSumSpec k1 valFn rs = groupedSumSpec k2 valFn rs"
proof -
  have m: "map k1 rs = map k2 rs" using assms by simp
  have f: "filter (\<lambda>r. k1 r = k) rs = filter (\<lambda>r. k2 r = k) rs" for k
    using assms by (intro filter_cong) auto
  show ?thesis
    by (simp add: groupedSumSpec_def groupEntries_def groupTotal_def m f)
qed

















subsection \<open>The insights of the filtered rows\<close>




lemma sample_month_key:
  "\<forall>r \<in> set sampleRows. monthOf r = (if r_state r = ''Texas'' then ''2015-04'' else ''2015-03'')"
  by (simp add: sampleRows_def monthOf_def monthKey_def date_defs intToString_def
        natToString.simps)


lemma sample_month_sales:
  "groupedSumSpec monthOf r_sales sampleRows = [(''2015-03'', 40), (''2015-04'', 5)]"
proof -
  let ?K = "\<lambda>r. if r_state r = ''Texas'' then ''2015-04'' else ''2015-03''"
  have "groupedSumSpec monthOf r_sales sampleRows = groupedSumSpec ?K r_sales sampleRows"
    using sample_month_key by (rule groupedSumSpec_cong)
  also have "\<dots> = [(''2015-03'', 40), (''2015-04'', 5)]"
    by (simp add: sampleRows_def groupedSumSpec_def groupEntries_def groupTotal_def)
  finally show ?thesis .
qed











end
